theory Spec2Isabelle
  imports Complex_Main
begin

section \<open>JavaScript values used by the inventory code\<close>

text \<open>
  The TypeScript type \<open>number\<close> is an IEEE-754 double. The model keeps the three kinds
  of value the code can tell apart (\<open>NaN\<close>, the two infinities, a finite value) and
  carries a finite value as the exact rational it denotes: rounding to 53 bits and the
  sign of zero are not modelled. The model is therefore exact on the integers the
  inventory holds (quantities, thresholds) and on decimal prices as long as no rounding
  occurs.
\<close>

datatype number = NaN | Num rat | PosInf | NegInf

fun js_neg :: "number \<Rightarrow> number" where
  "js_neg NaN = NaN"
| "js_neg (Num a) = Num (- a)"
| "js_neg PosInf = NegInf"
| "js_neg NegInf = PosInf"

text \<open>\<open>a + b\<close> on numbers.\<close>

fun js_add :: "number \<Rightarrow> number \<Rightarrow> number" where
  "js_add NaN b = NaN"
| "js_add a NaN = NaN"
| "js_add (Num a) (Num b) = Num (a + b)"
| "js_add PosInf NegInf = NaN"
| "js_add NegInf PosInf = NaN"
| "js_add PosInf b = PosInf"
| "js_add a PosInf = PosInf"
| "js_add NegInf b = NegInf"
| "js_add a NegInf = NegInf"

definition js_sub :: "number \<Rightarrow> number \<Rightarrow> number" where
  "js_sub a b = js_add a (js_neg b)"



text \<open>\<open>a <= b\<close> and \<open>a < b\<close>: every comparison with \<open>NaN\<close> is false.\<close>

fun js_le :: "number \<Rightarrow> number \<Rightarrow> bool" where
  "js_le NaN b = False"
| "js_le a NaN = False"
| "js_le (Num a) (Num b) = (a \<le> b)"
| "js_le NegInf b = True"
| "js_le a PosInf = True"
| "js_le PosInf b = False"
| "js_le a NegInf = False"

fun js_less :: "number \<Rightarrow> number \<Rightarrow> bool" where
  "js_less NaN b = False"
| "js_less a NaN = False"
| "js_less (Num a) (Num b) = (a < b)"
| "js_less PosInf b = False"
| "js_less a NegInf = False"
| "js_less NegInf b = True"
| "js_less a PosInf = True"

text \<open>\<open>Math.max(a, b)\<close>: \<open>NaN\<close> if either argument is.\<close>

fun Math_max :: "number \<Rightarrow> number \<Rightarrow> number" where
  "Math_max NaN b = NaN"
| "Math_max a NaN = NaN"
| "Math_max a b = (if js_le a b then b else a)"

text \<open>Truthiness, and the operator \<open>a || b\<close> on numbers and on strings. An absent
  (\<open>undefined\<close> or \<open>null\<close>) value is \<open>None\<close>.\<close>

fun truthy :: "number \<Rightarrow> bool" where
  "truthy NaN = False"
| "truthy (Num a) = (a \<noteq> 0)"
| "truthy PosInf = True"
| "truthy NegInf = True"

definition num_or :: "number option \<Rightarrow> number \<Rightarrow> number" where
  "num_or a d = (case a of None \<Rightarrow> d | Some x \<Rightarrow> if truthy x then x else d)"

definition str_or :: "string option \<Rightarrow> string \<Rightarrow> string" where
  "str_or a d = (case a of None \<Rightarrow> d | Some s \<Rightarrow> if s \<noteq> [] then s else d)"

section \<open>Data model (types.ts)\<close>

datatype TransactionType = IN | OUT

text \<open>\<open>Product\<close>. The field \<open>id\<close> is called \<open>ident\<close> here; \<open>lastUpdated\<close> holds a
  value of \<open>Date.now()\<close>, an integer number of milliseconds.\<close>

record Product =
  ident :: string
  sku :: string
  name :: string
  category :: string
  quantity :: number
  minThreshold :: number
  purchasePrice :: number
  sellingPrice :: number
  boxNumber :: string
  description :: string
  lastUpdated :: int

text \<open>\<open>Transaction\<close>. The fields \<open>id\<close>, \<open>type\<close> and \<open>quantity\<close> are called
  \<open>txId\<close>, \<open>txType\<close> and \<open>txQuantity\<close>.\<close>

record Transaction =
  txId :: string
  productId :: string
  productName :: string
  txType :: TransactionType
  txQuantity :: number
  reason :: string
  timestamp :: int
  userId :: string


section \<open>The component state of App.tsx\<close>

record AppState =
  products :: "Product list"
  transactions :: "Transaction list"
  stockActionType :: TransactionType
  selectedProduct :: "Product option"
  isModalOpen :: bool

text \<open>What a handler does besides updating the state: the rows the store accepted, the
  alert it raised, and whether the stock-out chime was played.\<close>

datatype StoreWrite = Upsert Product | LogTx Transaction

record Effects =
  writes :: "StoreWrite list"
  alert :: "string option"
  chime :: bool

subsection \<open>The statistics of the dashboard (\<open>stats\<close>)\<close>


subsection \<open>\<open>processStockTransaction\<close>\<close>

text \<open>
  The values the handler takes from its environment: the random transaction id, the two
  readings of \<open>Date.now()\<close>, and whether the store accepts \<open>upsertProduct\<close> and
  \<open>logTransaction\<close> (each throws otherwise).
\<close>

record StockEnv =
  randomTxId :: string
  nowProduct :: int
  nowTx :: int
  upsertOk :: bool
  logOk :: bool

definition processStockTransaction ::
  "StockEnv \<Rightarrow> string \<Rightarrow> number \<Rightarrow> string \<Rightarrow> string option \<Rightarrow> AppState \<Rightarrow> AppState \<times> Effects" where
  "processStockTransaction env pid amount rsn newBoxNumber s =
     (case find (\<lambda>p. ident p = pid) (products s) of
        None \<Rightarrow> (s, \<lparr> writes = [], alert = None, chime = False \<rparr>)
      | Some product \<Rightarrow>
          let newQty = (if stockActionType s = IN
                        then js_add (quantity product) amount
                        else Math_max (Num 0) (js_sub (quantity product) amount));
              played = (stockActionType s = OUT \<and> js_less (Num 0) amount);
              updatedProduct = product
                \<lparr> quantity := newQty,
                  boxNumber := str_or newBoxNumber (boxNumber product),
                  lastUpdated := nowProduct env \<rparr>;
              newTx = \<lparr> txId = randomTxId env,
                        productId = pid,
                        productName = name product,
                        txType = stockActionType s,
                        txQuantity = amount,
                        reason = (case newBoxNumber of
                                    None \<Rightarrow> rsn
                                  | Some b \<Rightarrow>
                                      if b \<noteq> [] \<and> b \<noteq> boxNumber product
                                      then rsn @ '' (Box: '' @ b @ '')''
                                      else rsn),
                        timestamp = nowTx env,
                        userId = ''Admin'' \<rparr>;
              closed = (\<lambda>t. t \<lparr> isModalOpen := False, selectedProduct := None \<rparr>)
          in if \<not> upsertOk env then
               (closed s,
                \<lparr> writes = [], alert = Some ''Cloud Sync Error. Please check connection.'',
                  chime = played \<rparr>)
             else if \<not> logOk env then
               (closed s,
                \<lparr> writes = [Upsert updatedProduct],
                  alert = Some ''Cloud Sync Error. Please check connection.'',
                  chime = played \<rparr>)
             else
               (closed (s \<lparr> products := map (\<lambda>p. if ident p = pid then updatedProduct else p) (products s),
                            transactions := newTx # transactions s \<rparr>),
                \<lparr> writes = [Upsert updatedProduct, LogTx newTx], alert = None,
                  chime = played \<rparr>))"

subsection \<open>\<open>saveProduct\<close>\<close>

text \<open>
  \<open>Partial<Product>\<close>: every field may be absent. \<open>None\<close> is an absent key; a key that
  is present with the value \<open>undefined\<close> is not a \<open>Product\<close> field value and is outside
  the model.
\<close>

record PartialProduct =
  p_ident :: "string option"
  p_sku :: "string option"
  p_name :: "string option"
  p_category :: "string option"
  p_quantity :: "number option"
  p_minThreshold :: "number option"
  p_purchasePrice :: "number option"
  p_sellingPrice :: "number option"
  p_boxNumber :: "string option"
  p_description :: "string option"
  p_lastUpdated :: "int option"

text \<open>Decimal digits of a natural number, as the template literal prints an integer.\<close>

definition digit_char :: "nat \<Rightarrow> char" where
  "digit_char d = char_of (48 + d)"

function show_nat :: "nat \<Rightarrow> string" where
  "show_nat n = (if n < 10 then [digit_char n] else show_nat (n div 10) @ [digit_char (n mod 10)])"
  by pat_completeness auto
termination
  by (relation "measure (\<lambda>n. n)") auto

declare show_nat.simps [simp del]

text \<open>
  The environment of \<open>saveProduct\<close>: the id \<open>Math.random().toString(36).substr(2, 9)\<close>,
  the value of \<open>Math.random()\<close> behind the generated SKU (in \<open>[0, 1)\<close>), \<open>Date.now()\<close>,
  and whether the store accepts the upsert.
\<close>

record SaveEnv =
  randomId :: string
  mathRandom :: rat
  nowSave :: int
  saveOk :: bool

text \<open>The object spread \<open>{ ...selectedProduct, ...data, lastUpdated: Date.now() }\<close>.\<close>

definition spread :: "Product \<Rightarrow> PartialProduct \<Rightarrow> int \<Rightarrow> Product" where
  "spread sel d t =
     \<lparr> ident = (case p_ident d of None \<Rightarrow> ident sel | Some v \<Rightarrow> v),
       sku = (case p_sku d of None \<Rightarrow> sku sel | Some v \<Rightarrow> v),
       name = (case p_name d of None \<Rightarrow> name sel | Some v \<Rightarrow> v),
       category = (case p_category d of None \<Rightarrow> category sel | Some v \<Rightarrow> v),
       quantity = (case p_quantity d of None \<Rightarrow> quantity sel | Some v \<Rightarrow> v),
       minThreshold = (case p_minThreshold d of None \<Rightarrow> minThreshold sel | Some v \<Rightarrow> v),
       purchasePrice = (case p_purchasePrice d of None \<Rightarrow> purchasePrice sel | Some v \<Rightarrow> v),
       sellingPrice = (case p_sellingPrice d of None \<Rightarrow> sellingPrice sel | Some v \<Rightarrow> v),
       boxNumber = (case p_boxNumber d of None \<Rightarrow> boxNumber sel | Some v \<Rightarrow> v),
       description = (case p_description d of None \<Rightarrow> description sel | Some v \<Rightarrow> v),
       lastUpdated = t \<rparr>"

definition newProduct :: "SaveEnv \<Rightarrow> PartialProduct \<Rightarrow> Product" where
  "newProduct env d =
     \<lparr> ident = randomId env,
       sku = str_or (p_sku d) (''SKU-'' @ show_nat (nat \<lfloor>mathRandom env * 1000\<rfloor>)),
       name = str_or (p_name d) ''New Product'',
       category = str_or (p_category d) ''Uncategorized'',
       quantity = num_or (p_quantity d) (Num 0),
       minThreshold = num_or (p_minThreshold d) (Num 5),
       purchasePrice = num_or (p_purchasePrice d) (Num 0),
       sellingPrice = num_or (p_sellingPrice d) (Num 0),
       boxNumber = str_or (p_boxNumber d) ''N/A'',
       description = str_or (p_description d) [],
       lastUpdated = nowSave env \<rparr>"

definition saveProduct :: "SaveEnv \<Rightarrow> PartialProduct \<Rightarrow> AppState \<Rightarrow> AppState \<times> Effects" where
  "saveProduct env d s =
     (let finalProduct = (case selectedProduct s of
                            Some sel \<Rightarrow> spread sel d (nowSave env)
                          | None \<Rightarrow> newProduct env d);
          closed = (\<lambda>t. t \<lparr> isModalOpen := False, selectedProduct := None \<rparr>)
      in if \<not> saveOk env then
           (closed s, \<lparr> writes = [], alert = Some ''Failed to save to cloud.'', chime = False \<rparr>)
         else
           (closed (s \<lparr> products :=
                       (case selectedProduct s of
                          Some sel \<Rightarrow> map (\<lambda>p. if ident p = ident sel then finalProduct else p) (products s)
                        | None \<Rightarrow> products s @ [finalProduct]) \<rparr>),
            \<lparr> writes = [Upsert finalProduct], alert = None, chime = False \<rparr>))"

section \<open>Strings\<close>

text \<open>
  A JavaScript string is modelled as a list of characters with codes below 256; code
  units above that range are outside the model. The white space that \<open>trim\<close>,
  \<open>parseInt\<close> and \<open>parseFloat\<close> skip is, in this range, tab, line feed, vertical tab,
  form feed, carriage return, space and no-break space.
\<close>

definition is_space :: "char \<Rightarrow> bool" where
  "is_space c = (of_char c \<in> {9, 10, 11, 12, 13, 32, 160 :: nat})"

definition trim :: "string \<Rightarrow> string" where
  "trim s = rev (dropWhile is_space (rev (dropWhile is_space s)))"

text \<open>\<open>s.split(c)\<close> for a one-character separator: never the empty array.\<close>

fun split_on :: "char \<Rightarrow> string \<Rightarrow> string list" where
  "split_on c [] = [[]]"
| "split_on c (x # xs) =
     (if x = c then [] # split_on c xs
      else (case split_on c xs of [] \<Rightarrow> [[x]] | w # ws \<Rightarrow> (x # w) # ws))"

text \<open>\<open>parts.join(sep)\<close>.\<close>

fun join :: "string \<Rightarrow> string list \<Rightarrow> string" where
  "join sep [] = []"
| "join sep [x] = x"
| "join sep (x # y # ys) = x @ sep @ join sep (y # ys)"

text \<open>\<open>v.replace(/^"|"$/g, '')\<close>: one double quote at the start and one at the end go.\<close>

definition strip_quotes :: "string \<Rightarrow> string" where
  "strip_quotes s =
     (let s1 = (case s of [] \<Rightarrow> [] | c # r \<Rightarrow> if c = CHR 0x22 then r else s)
      in if s1 \<noteq> [] \<and> last s1 = CHR 0x22 then butlast s1 else s1)"

text \<open>\<open>v.replace(/""/g, '"')\<close>: each pair of double quotes, from the left, becomes one.\<close>

fun undouble :: "string \<Rightarrow> string" where
  "undouble (a # b # r) =
     (if a = CHR 0x22 \<and> b = CHR 0x22 then CHR 0x22 # undouble r else a # undouble (b # r))"
| "undouble s = s"

text \<open>\<open>d.replace(/"/g, '""')\<close>.\<close>

definition escape_quotes :: "string \<Rightarrow> string" where
  "escape_quotes s = concat (map (\<lambda>c. if c = CHR 0x22 then [CHR 0x22, CHR 0x22] else [c]) s)"

subsection \<open>\<open>parseInt\<close> and \<open>parseFloat\<close>\<close>

definition digit_value :: "char \<Rightarrow> nat option" where
  "digit_value c =
     (let n = (of_char c :: nat)
      in if 48 \<le> n \<and> n \<le> 57 then Some (n - 48)
         else if 97 \<le> n \<and> n \<le> 122 then Some (n - 87)
         else if 65 \<le> n \<and> n \<le> 90 then Some (n - 55)
         else None)"

definition is_digit :: "nat \<Rightarrow> char \<Rightarrow> bool" where
  "is_digit radix c = (case digit_value c of None \<Rightarrow> False | Some d \<Rightarrow> d < radix)"

definition digits_to_nat :: "nat \<Rightarrow> string \<Rightarrow> nat" where
  "digits_to_nat radix ds =
     foldl (\<lambda>acc c. acc * radix + (case digit_value c of None \<Rightarrow> 0 | Some d \<Rightarrow> d)) 0 ds"

text \<open>
  \<open>parseInt(s)\<close> without a radix: leading white space, an optional sign, an optional
  \<open>0x\<close> or \<open>0X\<close> that selects radix 16, then the longest run of digits; \<open>NaN\<close> when the
  run is empty.
\<close>

definition parseInt :: "string \<Rightarrow> number" where
  "parseInt str =
     (let s0 = dropWhile is_space str;
          neg = (case s0 of [] \<Rightarrow> False | c # r \<Rightarrow> c = CHR ''-'');
          s1 = (case s0 of [] \<Rightarrow> [] | c # r \<Rightarrow> if c = CHR ''-'' \<or> c = CHR ''+'' then r else s0);
          hex = (case s1 of a # b # r \<Rightarrow> a = CHR ''0'' \<and> (b = CHR ''x'' \<or> b = CHR ''X'') | _ \<Rightarrow> False);
          radix = (if hex then 16 else 10);
          s2 = (if hex then drop 2 s1 else s1);
          z = takeWhile (is_digit radix) s2
      in if z = [] then NaN
         else Num (if neg then - of_nat (digits_to_nat radix z) else of_nat (digits_to_nat radix z)))"

text \<open>The exponent part \<open>e\<close>, optional sign, digits; 0 when there is none.\<close>

definition exponent_part :: "string \<Rightarrow> int" where
  "exponent_part s =
     (case s of
        [] \<Rightarrow> 0
      | c # r \<Rightarrow>
          if c = CHR ''e'' \<or> c = CHR ''E'' then
            (let eneg = (case r of [] \<Rightarrow> False | d # r' \<Rightarrow> d = CHR ''-'');
                 r1 = (case r of [] \<Rightarrow> [] | d # r' \<Rightarrow> if d = CHR ''-'' \<or> d = CHR ''+'' then r' else r);
                 ds = takeWhile (is_digit 10) r1
             in if ds = [] then 0
                else if eneg then - int (digits_to_nat 10 ds) else int (digits_to_nat 10 ds))
          else 0)"

definition scale10 :: "rat \<Rightarrow> int \<Rightarrow> rat" where
  "scale10 m e = (if 0 \<le> e then m * 10 ^ nat e else m / 10 ^ nat (- e))"

text \<open>
  \<open>parseFloat(s)\<close>: leading white space, then the longest prefix that is a decimal
  literal (sign, \<open>Infinity\<close>, or digits with an optional fraction and exponent); \<open>NaN\<close>
  when there is none.
\<close>

definition parseFloat :: "string \<Rightarrow> number" where
  "parseFloat str =
     (let s0 = dropWhile is_space str;
          neg = (case s0 of [] \<Rightarrow> False | c # r \<Rightarrow> c = CHR ''-'');
          s1 = (case s0 of [] \<Rightarrow> [] | c # r \<Rightarrow> if c = CHR ''-'' \<or> c = CHR ''+'' then r else s0)
      in if take 8 s1 = ''Infinity'' then (if neg then NegInf else PosInf)
         else
           (let ip = takeWhile (is_digit 10) s1;
                r1 = dropWhile (is_digit 10) s1;
                dot = (case r1 of [] \<Rightarrow> False | c # r \<Rightarrow> c = CHR ''.'');
                fp = (if dot then takeWhile (is_digit 10) (drop 1 r1) else []);
                r2 = (if dot then dropWhile (is_digit 10) (drop 1 r1) else r1)
            in if ip = [] \<and> fp = [] then NaN
               else
                 (let m = of_nat (digits_to_nat 10 ip) + of_nat (digits_to_nat 10 fp) / 10 ^ length fp;
                      v = scale10 m (exponent_part r2)
                  in Num (if neg then - v else v))))"

text \<open>
  The string of a number, as a template literal or \<open>join\<close> produces it. Integers below
  \<open>10^21\<close> in magnitude print in decimal. The text of any other finite value (the shortest
  digits that read back as the same double) depends on the binary representation, which
  the model does not have: it is the parameter \<open>other\<close>.
\<close>

definition numberToString :: "(rat \<Rightarrow> string) \<Rightarrow> number \<Rightarrow> string" where
  "numberToString other x =
     (case x of
        NaN \<Rightarrow> ''NaN''
      | PosInf \<Rightarrow> ''Infinity''
      | NegInf \<Rightarrow> ''-Infinity''
      | Num r \<Rightarrow>
          if r = of_int \<lfloor>r\<rfloor> \<and> \<bar>r\<bar> < 10 ^ 21
          then (if r < 0 then ''-'' @ show_nat (nat (- \<lfloor>r\<rfloor>)) else show_nat (nat \<lfloor>r\<rfloor>))
          else other r)"

section \<open>CSV export and import (services/csvService.ts)\<close>

definition csv_headers :: "string list" where
  "csv_headers = [''SKU'', ''Name'', ''Category'', ''Quantity'', ''Min Threshold'',
                  ''Purchase Price'', ''Selling Price'', ''Box Number'', ''Description'']"

definition quoted :: "string \<Rightarrow> string" where
  "quoted s = CHR 0x22 # s @ [CHR 0x22]"

definition exportRow :: "(rat \<Rightarrow> string) \<Rightarrow> Product \<Rightarrow> string" where
  "exportRow other p =
     join '',''
       [quoted (sku p), quoted (name p), quoted (category p),
        numberToString other (quantity p), numberToString other (minThreshold p),
        numberToString other (purchasePrice p), numberToString other (sellingPrice p),
        quoted (boxNumber p), quoted (escape_quotes (description p))]"

text \<open>
  \<open>exportToCSV\<close> returns at once on an empty list (\<open>None\<close>); otherwise the result is
  the text \<open>csvContent\<close> that it hands to the browser as a download.
\<close>

definition exportToCSV :: "(rat \<Rightarrow> string) \<Rightarrow> Product list \<Rightarrow> string option" where
  "exportToCSV other ps =
     (if ps = [] then None
      else Some (join [CHR 0x0A] (join '','' csv_headers # map (exportRow other) ps)))"

text \<open>
  The environment of \<open>parseCSV\<close>: what \<open>crypto.randomUUID()\<close> and \<open>Date.now()\<close> return
  while line \<open>i\<close> of the text is processed.
\<close>

record CsvEnv =
  randomUUID :: "nat \<Rightarrow> string"
  dateNow :: "nat \<Rightarrow> int"

definition cell :: "string \<Rightarrow> string" where
  "cell v = undouble (strip_quotes (trim v))"

text \<open>\<open>values[k]\<close>, \<open>undefined\<close> beyond the end.\<close>

definition value_at :: "string list \<Rightarrow> nat \<Rightarrow> string option" where
  "value_at vs k = (if k < length vs then Some (vs ! k) else None)"

text \<open>The record built from the cells of one row, before the SKU is looked up. It is
  only built from rows with at least 7 cells, so that cells 0 to 6 exist.\<close>

definition rowProduct :: "CsvEnv \<Rightarrow> nat \<Rightarrow> string list \<Rightarrow> Product" where
  "rowProduct env i vs =
     \<lparr> ident = randomUUID env i,
       sku = vs ! 0,
       name = vs ! 1,
       category = vs ! 2,
       quantity = num_or (Some (parseInt (vs ! 3))) (Num 0),
       minThreshold = num_or (Some (parseInt (vs ! 4))) (Num 0),
       purchasePrice = num_or (Some (parseFloat (vs ! 5))) (Num 0),
       sellingPrice = num_or (Some (parseFloat (vs ! 6))) (Num 0),
       boxNumber = str_or (value_at vs 7) [],
       description = str_or (value_at vs 8) [],
       lastUpdated = dateNow env i \<rparr>"

text \<open>The body of the loop over \<open>lines[i]\<close>, \<open>i = 1, 2, ...\<close>.\<close>

fun parseLines :: "CsvEnv \<Rightarrow> Product list \<Rightarrow> nat \<Rightarrow> string list \<Rightarrow> Product list" where
  "parseLines env existingProducts i [] = []"
| "parseLines env existingProducts i (l # ls) =
     (if trim l = [] then parseLines env existingProducts (Suc i) ls
      else
        (let vs = map cell (split_on CHR '','' l)
         in if length vs < 7 then parseLines env existingProducts (Suc i) ls
            else
              (let p = rowProduct env i vs;
                   p' = (case find (\<lambda>ep. sku ep = sku p) existingProducts of
                           None \<Rightarrow> p
                         | Some existing \<Rightarrow> p \<lparr> ident := ident existing \<rparr>)
               in p' # parseLines env existingProducts (Suc i) ls)))"

definition parseCSV :: "CsvEnv \<Rightarrow> string \<Rightarrow> Product list \<Rightarrow> Product list" where
  "parseCSV env text existingProducts =
     parseLines env existingProducts 1 (drop 1 (split_on (CHR 0x0A) text))"

text \<open>The seven fields that the round trip is to preserve.\<close>

definition kept_fields :: "Product \<Rightarrow> string \<times> string \<times> string \<times> number \<times> number \<times> number \<times> number" where
  "kept_fields p =
     (sku p, name p, category p, quantity p, minThreshold p, purchasePrice p, sellingPrice p)"

text \<open>Export followed by import against an empty catalog.\<close>

definition reimport :: "(rat \<Rightarrow> string) \<Rightarrow> CsvEnv \<Rightarrow> Product list \<Rightarrow> Product list option" where
  "reimport other env ps =
     (case exportToCSV other ps of None \<Rightarrow> None | Some csv \<Rightarrow> Some (parseCSV env csv []))"

section \<open>The snapshot sent for insights (\<open>getInventoryInsights\<close>) and \<open>fetchTransactions\<close>\<close>

text \<open>\<open>xs.slice(-n)\<close>: the last \<open>n\<close> elements, all of them when there are fewer.\<close>

definition slice_last :: "nat \<Rightarrow> 'a list \<Rightarrow> 'a list" where
  "slice_last n xs = drop (length xs - n) xs"

text \<open>One entry of the transaction part of the prompt. \<open>snap_date\<close> stands for
  \<open>new Date(t.timestamp).toISOString()\<close>, the instant printed as text.\<close>

record TxSnapshot =
  snap_name :: string
  snap_type :: TransactionType
  snap_qty :: number
  snap_date :: int

record ProductSnapshot =
  ps_name :: string
  ps_box :: string
  ps_qty :: number
  ps_min :: number
  ps_cost :: number
  ps_msrp :: number
  ps_margin :: number
  ps_cat :: string

definition insightProducts :: "Product list \<Rightarrow> ProductSnapshot list" where
  "insightProducts ps =
     map (\<lambda>p. \<lparr> ps_name = name p, ps_box = boxNumber p, ps_qty = quantity p,
                 ps_min = minThreshold p, ps_cost = purchasePrice p, ps_msrp = sellingPrice p,
                 ps_margin = js_sub (sellingPrice p) (purchasePrice p), ps_cat = category p \<rparr>) ps"

definition insightTransactions :: "Transaction list \<Rightarrow> TxSnapshot list" where
  "insightTransactions txs =
     map (\<lambda>t. \<lparr> snap_name = productName t, snap_type = txType t, snap_qty = txQuantity t,
                 snap_date = timestamp t \<rparr>) (slice_last 20 txs)"

text \<open>
  \<open>getInventoryInsights\<close>, as far as the claims go: the two lists that it writes
  into the prompt. The request to the language model and the reading of its answer are
  not modelled.
\<close>

record InsightContext =
  ctx_products :: "ProductSnapshot list"
  ctx_transactions :: "TxSnapshot list"

definition getInventoryInsights :: "Product list \<Rightarrow> Transaction list \<Rightarrow> InsightContext" where
  "getInventoryInsights ps txs =
     \<lparr> ctx_products = insightProducts ps, ctx_transactions = insightTransactions txs \<rparr>"

text \<open>
  \<open>fetchTransactions\<close>: the rows of the table \<open>transactions\<close> ordered by \<open>timestamp\<close>,
  descending, at most 100 of them; the empty list when the store reports an error
  (\<open>None\<close>).
\<close>

definition fetchTransactions :: "Transaction list option \<Rightarrow> Transaction list" where
  "fetchTransactions table =
     (case table of
        None \<Rightarrow> []
      | Some rows \<Rightarrow> take 100 (rev (sort_key timestamp rows)))"

section \<open>The stock report (components/Reports.tsx)\<close>





section \<open>Auxiliary notions for the statements\<close>







text \<open>
  Products that a CSV file can carry: SKU, name and category without comma, line feed or
  doubled double quote; box number and description without line feed; the four numbers
  integers that print in plain decimal.
\<close>

definition plain_field :: "string \<Rightarrow> bool" where
  "plain_field s = (CHR '','' \<notin> set s \<and> CHR 0x0A \<notin> set s \<and> undouble s = s)"

definition csv_int :: "number \<Rightarrow> bool" where
  "csv_int x = (case x of Num r \<Rightarrow> r = of_int \<lfloor>r\<rfloor> \<and> \<bar>r\<bar> < 10 ^ 21 | _ \<Rightarrow> False)"

definition csv_safe :: "Product \<Rightarrow> bool" where
  "csv_safe p =
     (plain_field (sku p) \<and> plain_field (name p) \<and> plain_field (category p)
      \<and> CHR 0x0A \<notin> set (boxNumber p) \<and> CHR 0x0A \<notin> set (description p)
      \<and> csv_int (quantity p) \<and> csv_int (minThreshold p)
      \<and> csv_int (purchasePrice p) \<and> csv_int (sellingPrice p))"

text \<open>The characters of a printed integer.\<close>

definition num_char :: "char \<Rightarrow> bool" where
  "num_char c = (is_digit 10 c \<or> c = CHR ''-'')"

section \<open>Concrete inputs\<close>

text \<open>A two-product catalog (the second product out of stock), a store that accepts
  every write, and a product form submitted with every field empty or zero.\<close>

definition widget :: Product where
  "widget = \<lparr> ident = ''p1'', sku = ''A'', name = ''Widget'', category = ''Parts'',
              quantity = Num 10, minThreshold = Num 5, purchasePrice = Num 2, sellingPrice = Num 3,
              boxNumber = ''B1'', description = [], lastUpdated = 0 \<rparr>"

definition gadget :: Product where
  "gadget = \<lparr> ident = ''p2'', sku = ''B'', name = ''Gadget'', category = ''Parts'',
              quantity = Num 0, minThreshold = Num 3, purchasePrice = Num 4, sellingPrice = Num 4,
              boxNumber = ''B2'', description = [], lastUpdated = 0 \<rparr>"

definition shop :: "TransactionType \<Rightarrow> AppState" where
  "shop dir = \<lparr> products = [widget, gadget], transactions = [], stockActionType = dir,
                selectedProduct = None, isModalOpen = True \<rparr>"

definition store_up :: StockEnv where
  "store_up = \<lparr> randomTxId = ''k3x9q0zu1'', nowProduct = 1700000000000, nowTx = 1700000000000,
                upsertOk = True, logOk = True \<rparr>"

definition save_up :: SaveEnv where
  "save_up = \<lparr> randomId = ''q7w1e5r2t'', mathRandom = 4171 / 10000, nowSave = 1700000000000,
               saveOk = True \<rparr>"

definition blank_form :: PartialProduct where
  "blank_form = \<lparr> p_ident = None, p_sku = Some [], p_name = Some [], p_category = Some [],
                  p_quantity = Some (Num 0), p_minThreshold = Some (Num 0),
                  p_purchasePrice = Some (Num 0), p_sellingPrice = Some (Num 0),
                  p_boxNumber = Some [], p_description = Some [], p_lastUpdated = None \<rparr>"

definition csv_env :: CsvEnv where
  "csv_env = \<lparr> randomUUID = (\<lambda>i. ''uuid-'' @ show_nat i),
               dateNow = (\<lambda>i. 1700000000000 + int i) \<rparr>"

text \<open>A product whose name contains a comma.\<close>

definition cable :: Product where
  "cable = \<lparr> ident = ''p7'', sku = ''C-1'', name = ''Cable, USB'', category = ''Accessories'',
             quantity = Num 10, minThreshold = Num 5, purchasePrice = Num 100, sellingPrice = Num 150,
             boxNumber = ''B1'', description = ''2 m'', lastUpdated = 0 \<rparr>"

text \<open>A ledger of 21 stock-out transactions, logged at times 1 to 21.\<close>

definition tx_at :: "int \<Rightarrow> Transaction" where
  "tx_at t = \<lparr> txId = ''t'' @ show_nat (nat t), productId = ''p1'', productName = ''Widget'',
               txType = OUT, txQuantity = Num 1, reason = ''sale'', timestamp = t,
               userId = ''Admin'' \<rparr>"

definition ledger21 :: "Transaction list" where
  "ledger21 = map tx_at [1..21]"

text \<open>Lines of CSV text: a header, a row of five cells, a row whose numeric cells are
  not numbers, a row that carries the SKU of \<open>widget\<close>, and a row with a new SKU that
  differs from it in case only.\<close>

definition header_line :: string where
  "header_line = ''SKU,Name,Category,Quantity,Min Threshold,Purchase Price,Selling Price''"

definition short_row :: string where
  "short_row = ''S1,Widget,Parts,7,2''"

definition bad_row :: string where
  "bad_row = ''S2,Bolt,Parts,abc,none,free,?''"



section \<open>Lists, replacement by id, and sums\<close>








section \<open>Non-negative integer quantities\<close>























section \<open>Reading CSV text\<close>

lemma split_on_no_sep: "c \<notin> set h \<Longrightarrow> split_on c h = [h]"
  by (induction h) auto

lemma split_on_first: "c \<notin> set h \<Longrightarrow> split_on c (h @ c # body) = h # split_on c body"
  by (induction h) auto

lemma parseCSV_skips_header:
  "CHR 0x0A \<notin> set header \<Longrightarrow>
   parseCSV env (header @ CHR 0x0A # body) ex = parseLines env ex 1 (split_on (CHR 0x0A) body)"
  by (simp add: parseCSV_def split_on_first)

lemma parseCSV_header_only: "CHR 0x0A \<notin> set text \<Longrightarrow> parseCSV env text ex = []"
  by (simp add: parseCSV_def split_on_no_sep)

lemma parseLines_short_row:
  "length (split_on CHR '','' l) < 7 \<Longrightarrow>
   parseLines env ex i (l # ls) = parseLines env ex (Suc i) ls"
  by (simp add: Let_def)

lemma parseLines_full_row:
  assumes "trim l \<noteq> []" and "7 \<le> length (split_on CHR '','' l)"
  shows "\<exists>p. parseLines env ex i (l # ls) = p # parseLines env ex (Suc i) ls
     \<and> ident p = (case find (\<lambda>ep. sku ep = cell (split_on CHR '','' l ! 0)) ex of
                    None \<Rightarrow> randomUUID env i | Some e \<Rightarrow> ident e)
     \<and> sku p = cell (split_on CHR '','' l ! 0)
     \<and> name p = cell (split_on CHR '','' l ! 1)
     \<and> category p = cell (split_on CHR '','' l ! 2)
     \<and> quantity p = num_or (Some (parseInt (cell (split_on CHR '','' l ! 3)))) (Num 0)
     \<and> minThreshold p = num_or (Some (parseInt (cell (split_on CHR '','' l ! 4)))) (Num 0)
     \<and> purchasePrice p = num_or (Some (parseFloat (cell (split_on CHR '','' l ! 5)))) (Num 0)
     \<and> sellingPrice p = num_or (Some (parseFloat (cell (split_on CHR '','' l ! 6)))) (Num 0)"
proof -
  let ?ws = "split_on CHR '','' l"
  have n: "0 < length ?ws" "1 < length ?ws" "2 < length ?ws" "3 < length ?ws" "4 < length ?ws" "5 < length ?ws" "6 < length ?ws"
    using assms(2) by auto
  have len: "\<not> length (map cell ?ws) < 7" using assms(2) by simp
  show ?thesis
    using assms(1) len n by (auto simp: Let_def rowProduct_def nth_map split: option.splits)
qed

lemma num_or_NaN: "num_or (Some NaN) d = d"
  by (simp add: num_or_def)

lemma no_digit_takeWhile: "list_all (\<lambda>c. \<not> is_digit 10 c) s \<Longrightarrow> takeWhile (is_digit 10) s = []"
  by (cases s) auto

lemma list_all_dropWhile: "list_all P s \<Longrightarrow> list_all P (dropWhile Q s)"
  by (induction s) auto

lemma list_all_strip_sign:
  "list_all P s \<Longrightarrow> list_all P (case s of [] \<Rightarrow> [] | c # r \<Rightarrow> if Q c then r else s)"
  by (cases s) auto

lemma set_strip_sign:
  "set (case s of [] \<Rightarrow> [] | c # r \<Rightarrow> if Q c then r else s) \<subseteq> set s"
  by (cases s) auto

lemma is_digit_zero: "is_digit 10 CHR ''0''"
  by (simp add: is_digit_def digit_value_def)

lemma no_hex_prefix:
  "list_all (\<lambda>c. \<not> is_digit 10 c) s \<Longrightarrow>
   \<not> (case s of a # b # r \<Rightarrow> a = CHR ''0'' \<and> (b = CHR ''x'' \<or> b = CHR ''X'') | _ \<Rightarrow> False)"
  using is_digit_zero by (auto split: list.splits)

lemma parseInt_no_digit:
  assumes "list_all (\<lambda>c. \<not> is_digit 10 c) v"
  shows "parseInt v = NaN"
proof -
  define s0 where "s0 = dropWhile is_space v"
  define s1 where "s1 = (case s0 of [] \<Rightarrow> [] | c # r \<Rightarrow> if c = CHR ''-'' \<or> c = CHR ''+'' then r else s0)"
  have "list_all (\<lambda>c. \<not> is_digit 10 c) s0"
    unfolding s0_def using assms by (rule list_all_dropWhile)
  then have s1: "list_all (\<lambda>c. \<not> is_digit 10 c) s1"
    unfolding s1_def by (rule list_all_strip_sign)
  have nohex: "\<not> (case s1 of a # b # r \<Rightarrow> a = CHR ''0'' \<and> (b = CHR ''x'' \<or> b = CHR ''X'') | _ \<Rightarrow> False)"
    using s1 by (rule no_hex_prefix)
  have z: "takeWhile (is_digit 10) s1 = []" using s1 by (rule no_digit_takeWhile)
  have "parseInt v =
     (let hex = (case s1 of a # b # r \<Rightarrow> a = CHR ''0'' \<and> (b = CHR ''x'' \<or> b = CHR ''X'') | _ \<Rightarrow> False);
          radix = (if hex then 16 else 10);
          s2 = (if hex then drop 2 s1 else s1);
          z = takeWhile (is_digit radix) s2
      in if z = [] then NaN
         else Num (if (case s0 of [] \<Rightarrow> False | c # r \<Rightarrow> c = CHR ''-'')
                   then - of_nat (digits_to_nat radix z) else of_nat (digits_to_nat radix z)))"
    unfolding parseInt_def s1_def s0_def Let_def ..
  also have "\<dots> = NaN"
    using nohex z by (simp add: Let_def)
  finally show ?thesis .
qed

lemma parseFloat_no_digit:
  assumes "list_all (\<lambda>c. \<not> is_digit 10 c) v" and "CHR ''I'' \<notin> set v"
  shows "parseFloat v = NaN"
proof -
  define s0 where "s0 = dropWhile is_space v"
  define s1 where "s1 = (case s0 of [] \<Rightarrow> [] | c # r \<Rightarrow> if c = CHR ''-'' \<or> c = CHR ''+'' then r else s0)"
  have "list_all (\<lambda>c. \<not> is_digit 10 c) s0"
    unfolding s0_def using assms(1) by (rule list_all_dropWhile)
  then have s1: "list_all (\<lambda>c. \<not> is_digit 10 c) s1"
    unfolding s1_def by (rule list_all_strip_sign)
  have "set s0 \<subseteq> set v" unfolding s0_def by (auto dest: set_dropWhileD)
  moreover have "set s1 \<subseteq> set s0" unfolding s1_def by (rule set_strip_sign)
  ultimately have "CHR ''I'' \<notin> set s1" using assms(2) by blast
  then have "CHR ''I'' \<notin> set (take 8 s1)" by (auto dest: in_set_takeD)
  then have noinf: "take 8 s1 \<noteq> ''Infinity''" by auto
  have ip: "takeWhile (is_digit 10) s1 = []" using s1 by (rule no_digit_takeWhile)
  have r1: "dropWhile (is_digit 10) s1 = s1"
    using s1 by (cases s1) auto
  have "list_all (\<lambda>c. \<not> is_digit 10 c) (drop 1 s1)"
    using s1 by (cases s1) auto
  then have fp: "takeWhile (is_digit 10) (drop 1 s1) = []" by (rule no_digit_takeWhile)
  have "parseFloat v =
     (if take 8 s1 = ''Infinity''
      then (if (case s0 of [] \<Rightarrow> False | c # r \<Rightarrow> c = CHR ''-'') then NegInf else PosInf)
      else
        (let ip = takeWhile (is_digit 10) s1;
             r1 = dropWhile (is_digit 10) s1;
             dot = (case r1 of [] \<Rightarrow> False | c # r \<Rightarrow> c = CHR ''.'');
             fp = (if dot then takeWhile (is_digit 10) (drop 1 r1) else []);
             r2 = (if dot then dropWhile (is_digit 10) (drop 1 r1) else r1)
         in if ip = [] \<and> fp = [] then NaN
            else
              (let m = of_nat (digits_to_nat 10 ip) + of_nat (digits_to_nat 10 fp) / 10 ^ length fp;
                   v = scale10 m (exponent_part r2)
               in Num (if (case s0 of [] \<Rightarrow> False | c # r \<Rightarrow> c = CHR ''-'') then - v else v))))"
    unfolding parseFloat_def s1_def s0_def Let_def ..
  also have "\<dots> = NaN"
    using noinf ip fp by (simp add: Let_def r1)
  finally show ?thesis .
qed






section \<open>Valuation\<close>




section \<open>Stock movements\<close>

text \<open>
  Claim C1. A stock movement is successful when the product id is found and the store
  accepts both writes. Then the transaction list grows by exactly one record, placed at
  its head, the store receives the same record, and the record carries the requested
  amount (whatever the clamping did to the product) and the direction of the movement.
\<close>

theorem stock_movement_appends_one_transaction:
  assumes "find (\<lambda>p. ident p = pid) (products s) = Some product"
    and "upsertOk env" and "logOk env"
  shows "\<exists>tx u.
      transactions (fst (processStockTransaction env pid amount rsn nb s)) = tx # transactions s
    \<and> writes (snd (processStockTransaction env pid amount rsn nb s)) = [Upsert u, LogTx tx]
    \<and> txQuantity tx = amount \<and> txType tx = stockActionType s \<and> productId tx = pid"
  using assms by (simp add: processStockTransaction_def Let_def)

theorem stock_movement_appends_one_transaction_witness:
  "find (\<lambda>p. ident p = ''p1'') (products (shop OUT)) = Some widget
   \<and> upsertOk store_up \<and> logOk store_up
   \<and> (\<exists>tx u.
        transactions (fst (processStockTransaction store_up ''p1'' (Num 15) ''sale'' None (shop OUT)))
          = tx # transactions (shop OUT)
      \<and> writes (snd (processStockTransaction store_up ''p1'' (Num 15) ''sale'' None (shop OUT)))
          = [Upsert u, LogTx tx]
      \<and> txQuantity tx = Num 15 \<and> txType tx = OUT \<and> productId tx = ''p1'')"
proof -
  have f: "find (\<lambda>p. ident p = ''p1'') (products (shop OUT)) = Some widget"
    by (simp add: shop_def widget_def)
  have u: "upsertOk store_up" and l: "logOk store_up"
    by (simp_all add: store_up_def)
  from stock_movement_appends_one_transaction[OF f u l, of "Num 15" "''sale''" None]
  have "\<exists>tx u.
        transactions (fst (processStockTransaction store_up ''p1'' (Num 15) ''sale'' None (shop OUT)))
          = tx # transactions (shop OUT)
      \<and> writes (snd (processStockTransaction store_up ''p1'' (Num 15) ''sale'' None (shop OUT)))
          = [Upsert u, LogTx tx]
      \<and> txQuantity tx = Num 15 \<and> txType tx = OUT \<and> productId tx = ''p1''"
    by (simp add: shop_def)
  with f u l show ?thesis by blast
qed








section \<open>Creating a product\<close>

text \<open>
  Claim C10. On the create path (no product selected, store accepts the upsert) the new
  product is appended, and each default applies to a falsy supplied value as it does to
  an absent one: a minimum threshold of 0 (or \<open>NaN\<close>) becomes 5, an empty SKU becomes
  the generated \<open>SKU-n\<close>, an empty name, category or box number becomes its placeholder.
\<close>

theorem create_defaults_on_falsy:
  assumes "selectedProduct s = None" and "saveOk env"
  shows "\<exists>fp. products (fst (saveProduct env d s)) = products s @ [fp]
     \<and> (p_minThreshold d \<in> {None, Some (Num 0), Some NaN} \<longrightarrow> minThreshold fp = Num 5)
     \<and> (p_sku d \<in> {None, Some []} \<longrightarrow>
          sku fp = ''SKU-'' @ show_nat (nat \<lfloor>mathRandom env * 1000\<rfloor>))
     \<and> (p_name d \<in> {None, Some []} \<longrightarrow> name fp = ''New Product'')
     \<and> (p_category d \<in> {None, Some []} \<longrightarrow> category fp = ''Uncategorized'')
     \<and> (p_boxNumber d \<in> {None, Some []} \<longrightarrow> boxNumber fp = ''N/A'')"
  using assms
  by (auto simp: saveProduct_def Let_def newProduct_def num_or_def str_or_def)

theorem create_defaults_on_falsy_witness:
  "selectedProduct (shop IN) = None \<and> saveOk save_up
   \<and> p_minThreshold blank_form = Some (Num 0) \<and> p_sku blank_form = Some []
   \<and> p_name blank_form = Some [] \<and> p_category blank_form = Some [] \<and> p_boxNumber blank_form = Some []
   \<and> (\<exists>fp. products (fst (saveProduct save_up blank_form (shop IN))) = products (shop IN) @ [fp]
        \<and> minThreshold fp = Num 5 \<and> sku fp = ''SKU-417'' \<and> name fp = ''New Product''
        \<and> category fp = ''Uncategorized'' \<and> boxNumber fp = ''N/A'')"
proof -
  have s: "selectedProduct (shop IN) = None" by (simp add: shop_def)
  have o: "saveOk save_up" by (simp add: save_up_def)
  have b: "p_minThreshold blank_form = Some (Num 0)" "p_sku blank_form = Some []"
    "p_name blank_form = Some []" "p_category blank_form = Some []" "p_boxNumber blank_form = Some []"
    by (simp_all add: blank_form_def)
  have r: "show_nat (nat \<lfloor>mathRandom save_up * 1000\<rfloor>) = ''417''"
    by code_simp
  from create_defaults_on_falsy[OF s o, of blank_form]
  have "\<exists>fp. products (fst (saveProduct save_up blank_form (shop IN))) = products (shop IN) @ [fp]
        \<and> minThreshold fp = Num 5 \<and> sku fp = ''SKU-417'' \<and> name fp = ''New Product''
        \<and> category fp = ''Uncategorized'' \<and> boxNumber fp = ''N/A''"
    by (simp add: b r)
  with s o b show ?thesis by blast
qed

section \<open>CSV import\<close>



text \<open>
  Claim C7. \<open>parseCSV\<close> never reads the first line; a line with fewer than 7 cells
  yields no record and the loop goes on; a line with at least 7 cells yields a record
  in which each numeric field whose cell parses to \<open>NaN\<close> is 0. A cell without a
  decimal digit (such as \<open>abc\<close>) parses to \<open>NaN\<close> with \<open>parseInt\<close>, and with
  \<open>parseFloat\<close> as well unless it spells \<open>Infinity\<close>.
\<close>

theorem parseCSV_skips_and_defaults:
  "(CHR 0x0A \<notin> set header \<longrightarrow>
      parseCSV env (header @ CHR 0x0A # body) ex = parseLines env ex 1 (split_on (CHR 0x0A) body)
    \<and> parseCSV env header ex = [])
   \<and> (length (split_on CHR '','' l) < 7 \<longrightarrow>
        parseLines env ex i (l # ls) = parseLines env ex (Suc i) ls)
   \<and> (trim l \<noteq> [] \<and> 7 \<le> length (split_on CHR '','' l) \<longrightarrow>
        (\<exists>p. parseLines env ex i (l # ls) = p # parseLines env ex (Suc i) ls
           \<and> (parseInt (cell (split_on CHR '','' l ! 3)) = NaN \<longrightarrow> quantity p = Num 0)
           \<and> (parseInt (cell (split_on CHR '','' l ! 4)) = NaN \<longrightarrow> minThreshold p = Num 0)
           \<and> (parseFloat (cell (split_on CHR '','' l ! 5)) = NaN \<longrightarrow> purchasePrice p = Num 0)
           \<and> (parseFloat (cell (split_on CHR '','' l ! 6)) = NaN \<longrightarrow> sellingPrice p = Num 0)))
   \<and> (list_all (\<lambda>c. \<not> is_digit 10 c) v \<longrightarrow> parseInt v = NaN)
   \<and> (list_all (\<lambda>c. \<not> is_digit 10 c) v \<and> CHR ''I'' \<notin> set v \<longrightarrow> parseFloat v = NaN)"
proof -
  have full: "\<exists>p. parseLines env ex i (l # ls) = p # parseLines env ex (Suc i) ls
           \<and> (parseInt (cell (split_on CHR '','' l ! 3)) = NaN \<longrightarrow> quantity p = Num 0)
           \<and> (parseInt (cell (split_on CHR '','' l ! 4)) = NaN \<longrightarrow> minThreshold p = Num 0)
           \<and> (parseFloat (cell (split_on CHR '','' l ! 5)) = NaN \<longrightarrow> purchasePrice p = Num 0)
           \<and> (parseFloat (cell (split_on CHR '','' l ! 6)) = NaN \<longrightarrow> sellingPrice p = Num 0)"
    if "trim l \<noteq> []" "7 \<le> length (split_on CHR '','' l)"
  proof -
    from parseLines_full_row[OF that, of env ex i ls] obtain p where
      "parseLines env ex i (l # ls) = p # parseLines env ex (Suc i) ls"
      "quantity p = num_or (Some (parseInt (cell (split_on CHR '','' l ! 3)))) (Num 0)"
      "minThreshold p = num_or (Some (parseInt (cell (split_on CHR '','' l ! 4)))) (Num 0)"
      "purchasePrice p = num_or (Some (parseFloat (cell (split_on CHR '','' l ! 5)))) (Num 0)"
      "sellingPrice p = num_or (Some (parseFloat (cell (split_on CHR '','' l ! 6)))) (Num 0)"
      by blast
    then show ?thesis by (auto simp: num_or_NaN)
  qed
  show ?thesis
    using parseCSV_skips_header[of header env body ex] parseCSV_header_only[of header env ex]
      parseLines_short_row[of l env ex i ls] full parseInt_no_digit[of v] parseFloat_no_digit[of v]
    by blast
qed

theorem parseCSV_skips_and_defaults_witness:
  "CHR 0x0A \<notin> set header_line
   \<and> length (split_on CHR '','' short_row) = 5
   \<and> trim bad_row \<noteq> [] \<and> length (split_on CHR '','' bad_row) = 7
   \<and> parseInt ''abc'' = NaN \<and> parseFloat ''free'' = NaN
   \<and> parseCSV csv_env header_line [] = []
   \<and> (\<exists>p. parseCSV csv_env (header_line @ CHR 0x0A # short_row @ CHR 0x0A # bad_row) [] = [p]
         \<and> quantity p = Num 0 \<and> minThreshold p = Num 0
         \<and> purchasePrice p = Num 0 \<and> sellingPrice p = Num 0)"
proof -
  have h: "CHR 0x0A \<notin> set header_line" by (simp add: header_line_def)
  have s: "length (split_on CHR '','' short_row) = 5" by code_simp
  have t: "trim bad_row \<noteq> []" by code_simp
  have b: "length (split_on CHR '','' bad_row) = 7" by code_simp
  have cells: "cell (split_on CHR '','' bad_row ! 3) = ''abc''" "cell (split_on CHR '','' bad_row ! 4) = ''none''"
    "cell (split_on CHR '','' bad_row ! 5) = ''free''" "cell (split_on CHR '','' bad_row ! 6) = ''?''"
    by code_simp+
  have nd: "list_all (\<lambda>c. \<not> is_digit 10 c) ''abc''" "list_all (\<lambda>c. \<not> is_digit 10 c) ''none''"
    "list_all (\<lambda>c. \<not> is_digit 10 c) ''free''" "list_all (\<lambda>c. \<not> is_digit 10 c) ''?''"
    by (simp_all add: is_digit_def digit_value_def)
  have sp: "split_on (CHR 0x0A) (short_row @ CHR 0x0A # bad_row) = [short_row, bad_row]"
    by (simp add: split_on_first split_on_no_sep short_row_def bad_row_def)
  note T = parseCSV_skips_and_defaults
  from T[where header=header_line and env=csv_env and body="short_row @ CHR 0x0A # bad_row" and ex="[]", THEN conjunct1] h sp
  have 1: "parseCSV csv_env (header_line @ CHR 0x0A # short_row @ CHR 0x0A # bad_row) []
           = parseLines csv_env [] 1 [short_row, bad_row]"
    and 0: "parseCSV csv_env header_line [] = []"
    by simp_all
  from T[where l=short_row and env=csv_env and ex="[]" and i=1 and ls="[bad_row]", THEN conjunct2, THEN conjunct1] s
  have 2: "parseLines csv_env [] 1 [short_row, bad_row] = parseLines csv_env [] (Suc 1) [bad_row]"
    by simp
  from T[where v="''abc''", THEN conjunct2, THEN conjunct2, THEN conjunct2] nd
  have a: "parseInt ''abc'' = NaN" by blast
  from T[where v="''none''", THEN conjunct2, THEN conjunct2, THEN conjunct2] nd
  have n: "parseInt ''none'' = NaN" by blast
  from T[where v="''free''", THEN conjunct2, THEN conjunct2, THEN conjunct2] nd
  have f: "parseFloat ''free'' = NaN" by simp
  from T[where v="''?''", THEN conjunct2, THEN conjunct2, THEN conjunct2] nd
  have q: "parseFloat ''?'' = NaN" by simp
  from T[where l=bad_row and env=csv_env and ex="[]" and i="Suc 1" and ls="[]", THEN conjunct2, THEN conjunct2, THEN conjunct1] t b
  obtain p where p: "parseLines csv_env [] (Suc 1) [bad_row] = p # parseLines csv_env [] (Suc (Suc 1)) []"
    "parseInt (cell (split_on CHR '','' bad_row ! 3)) = NaN \<longrightarrow> quantity p = Num 0"
    "parseInt (cell (split_on CHR '','' bad_row ! 4)) = NaN \<longrightarrow> minThreshold p = Num 0"
    "parseFloat (cell (split_on CHR '','' bad_row ! 5)) = NaN \<longrightarrow> purchasePrice p = Num 0"
    "parseFloat (cell (split_on CHR '','' bad_row ! 6)) = NaN \<longrightarrow> sellingPrice p = Num 0"
    by auto
  from p(2-5) a n f q have z: "quantity p = Num 0" "minThreshold p = Num 0"
    "purchasePrice p = Num 0" "sellingPrice p = Num 0"
    unfolding cells by blast+
  from 1 2 p(1) have "parseCSV csv_env (header_line @ CHR 0x0A # short_row @ CHR 0x0A # bad_row) [] = [p]"
    by simp
  with z h s t b a f 0 show ?thesis by blast
qed

section \<open>CSV export followed by import\<close>

subsection \<open>Printed integers read back\<close>

lemma digit_value_digit_char: "d < 10 \<Longrightarrow> digit_value (digit_char d) = Some d"
  by (simp add: digit_value_def digit_char_def)

lemma is_digit_digit_char: "d < 10 \<Longrightarrow> is_digit 10 (digit_char d)"
  by (simp add: is_digit_def digit_value_digit_char)

lemma show_nat_digits: "list_all (is_digit 10) (show_nat n)"
proof (induction n rule: show_nat.induct)
  case (1 n)
  show ?case
  proof (cases "n < 10")
    case True
    then show ?thesis by (subst show_nat.simps) (simp add: is_digit_digit_char)
  next
    case False
    with 1 show ?thesis by (subst show_nat.simps) (simp add: is_digit_digit_char)
  qed
qed

lemma show_nat_not_Nil: "show_nat n \<noteq> []"
  by (subst show_nat.simps) simp

lemma digits_to_nat_snoc:
  "digits_to_nat r (ds @ [c]) = digits_to_nat r ds * r + (case digit_value c of None \<Rightarrow> 0 | Some d \<Rightarrow> d)"
  by (simp add: digits_to_nat_def)

lemma digits_to_nat_show_nat: "digits_to_nat 10 (show_nat n) = n"
proof (induction n rule: show_nat.induct)
  case (1 n)
  show ?case
  proof (cases "n < 10")
    case True
    then show ?thesis
      by (subst show_nat.simps) (simp add: digits_to_nat_def digit_value_digit_char)
  next
    case False
    with 1 have "digits_to_nat 10 (show_nat (n div 10)) = n div 10" by simp
    with False show ?thesis
      by (subst show_nat.simps) (simp add: digits_to_nat_snoc digit_value_digit_char)
  qed
qed

lemma is_digit_facts:
  assumes "is_digit 10 c"
  shows "\<not> is_space c" "c \<noteq> CHR ''-''" "c \<noteq> CHR ''+''" "c \<noteq> CHR ''x''" "c \<noteq> CHR ''X''"
    "c \<noteq> CHR ''I''" "c \<noteq> CHR 0x22" "c \<noteq> CHR '',''" "c \<noteq> CHR 0x0A" "c \<noteq> CHR ''.''" "c \<noteq> CHR ''e''"
    "c \<noteq> CHR ''E''"
  using assms by (auto simp: is_digit_def digit_value_def is_space_def Let_def split: if_splits)

lemma takeWhile_all: "list_all P xs \<Longrightarrow> takeWhile P xs = xs"
  by (induction xs) auto

lemma dropWhile_all: "list_all P xs \<Longrightarrow> dropWhile P xs = []"
  by (induction xs) auto

lemma not_digit_x: "\<not> is_digit 10 CHR ''x''" "\<not> is_digit 10 CHR ''X''"
  by (simp_all add: is_digit_def digit_value_def)

lemma no_hex_in_digits:
  assumes "list_all (is_digit 10) ds"
  shows "\<not> (case ds of a # b # r \<Rightarrow> a = CHR ''0'' \<and> (b = CHR ''x'' \<or> b = CHR ''X'') | _ \<Rightarrow> False)"
  using assms not_digit_x by (auto split: list.splits)

lemma dropWhile_space_digits:
  assumes "list_all (is_digit 10) ds"
  shows "dropWhile is_space ds = ds"
  using assms is_digit_facts(1) by (cases ds) auto

lemma not_Infinity_digits:
  assumes "list_all (is_digit 10) ds"
  shows "take 8 ds \<noteq> ''Infinity''"
proof (cases ds)
  case Nil
  then show ?thesis by simp
next
  case (Cons c r)
  with assms have "c \<noteq> CHR ''I''" using is_digit_facts(6) by simp
  with Cons show ?thesis by auto
qed

text \<open>What both parsers do once white space and sign are gone.\<close>

lemma parseInt_after_sign:
  "parseInt str =
     (let s0 = dropWhile is_space str;
          s1 = (case s0 of [] \<Rightarrow> [] | c # r \<Rightarrow> if c = CHR ''-'' \<or> c = CHR ''+'' then r else s0);
          hex = (case s1 of a # b # r \<Rightarrow> a = CHR ''0'' \<and> (b = CHR ''x'' \<or> b = CHR ''X'') | _ \<Rightarrow> False);
          z = takeWhile (is_digit (if hex then 16 else 10)) (if hex then drop 2 s1 else s1)
      in if z = [] then NaN
         else Num (if (case s0 of [] \<Rightarrow> False | c # r \<Rightarrow> c = CHR ''-'')
                   then - of_nat (digits_to_nat (if hex then 16 else 10) z)
                   else of_nat (digits_to_nat (if hex then 16 else 10) z)))"
  unfolding parseInt_def Let_def ..

lemma parseInt_signed_digits:
  assumes d: "list_all (is_digit 10) ds" and ne: "ds \<noteq> []"
    and s0: "dropWhile is_space str = s0"
    and s1: "(case s0 of [] \<Rightarrow> [] | c # r \<Rightarrow> if c = CHR ''-'' \<or> c = CHR ''+'' then r else s0) = ds"
  shows "parseInt str =
         Num (if (case s0 of [] \<Rightarrow> False | c # r \<Rightarrow> c = CHR ''-'')
              then - of_nat (digits_to_nat 10 ds) else of_nat (digits_to_nat 10 ds))"
proof -
  have z: "takeWhile (is_digit 10) ds = ds" using d by (rule takeWhile_all)
  have h: "(case ds of a # b # r \<Rightarrow> a = CHR ''0'' \<and> (b = CHR ''x'' \<or> b = CHR ''X'') | _ \<Rightarrow> False) = False"
    using no_hex_in_digits[OF d] by simp
  show ?thesis
    unfolding parseInt_after_sign Let_def s0 s1 h using ne by (simp add: z)
qed

lemma parseFloat_after_sign:
  "parseFloat str =
     (let s0 = dropWhile is_space str;
          s1 = (case s0 of [] \<Rightarrow> [] | c # r \<Rightarrow> if c = CHR ''-'' \<or> c = CHR ''+'' then r else s0);
          neg = (case s0 of [] \<Rightarrow> False | c # r \<Rightarrow> c = CHR ''-'');
          ip = takeWhile (is_digit 10) s1;
          r1 = dropWhile (is_digit 10) s1;
          dot = (case r1 of [] \<Rightarrow> False | c # r \<Rightarrow> c = CHR ''.'');
          fp = (if dot then takeWhile (is_digit 10) (drop 1 r1) else []);
          r2 = (if dot then dropWhile (is_digit 10) (drop 1 r1) else r1)
      in if take 8 s1 = ''Infinity'' then (if neg then NegInf else PosInf)
         else if ip = [] \<and> fp = [] then NaN
         else Num (if neg
                   then - scale10 (of_nat (digits_to_nat 10 ip) + of_nat (digits_to_nat 10 fp) / 10 ^ length fp)
                            (exponent_part r2)
                   else scale10 (of_nat (digits_to_nat 10 ip) + of_nat (digits_to_nat 10 fp) / 10 ^ length fp)
                            (exponent_part r2)))"
  unfolding parseFloat_def Let_def ..

lemma parseFloat_signed_digits:
  assumes d: "list_all (is_digit 10) ds" and ne: "ds \<noteq> []"
    and s0: "dropWhile is_space str = s0"
    and s1: "(case s0 of [] \<Rightarrow> [] | c # r \<Rightarrow> if c = CHR ''-'' \<or> c = CHR ''+'' then r else s0) = ds"
  shows "parseFloat str =
         Num (if (case s0 of [] \<Rightarrow> False | c # r \<Rightarrow> c = CHR ''-'')
              then - of_nat (digits_to_nat 10 ds) else of_nat (digits_to_nat 10 ds))"
proof -
  have ip: "takeWhile (is_digit 10) ds = ds" using d by (rule takeWhile_all)
  have r1: "dropWhile (is_digit 10) ds = []" using d by (rule dropWhile_all)
  have e: "exponent_part [] = 0" by (simp add: exponent_part_def)
  have dn: "digits_to_nat 10 [] = 0" by (simp add: digits_to_nat_def)
  have inf: "(take 8 ds = ''Infinity'') = False" using not_Infinity_digits[OF d] by simp
  show ?thesis
    unfolding parseFloat_after_sign Let_def s0 s1 ip r1 inf
    using ne by (simp add: e dn scale10_def)
qed

lemma sign_strip_digits:
  assumes d: "list_all (is_digit 10) ds" and ne: "ds \<noteq> []"
  shows "dropWhile is_space ds = ds"
    and "(case ds of [] \<Rightarrow> [] | c # r \<Rightarrow> if c = CHR ''-'' \<or> c = CHR ''+'' then r else ds) = ds"
    and "\<not> (case ds of [] \<Rightarrow> False | c # r \<Rightarrow> c = CHR ''-'')"
proof -
  from ne obtain c r where ds: "ds = c # r" by (cases ds) auto
  with d have c: "is_digit 10 c" by simp
  show "dropWhile is_space ds = ds" using d by (rule dropWhile_space_digits)
  show "(case ds of [] \<Rightarrow> [] | c # r \<Rightarrow> if c = CHR ''-'' \<or> c = CHR ''+'' then r else ds) = ds"
    using c is_digit_facts(2,3) by (simp add: ds)
  show "\<not> (case ds of [] \<Rightarrow> False | c # r \<Rightarrow> c = CHR ''-'')"
    using c is_digit_facts(2) by (simp add: ds)
qed

lemma parseInt_digits:
  assumes "list_all (is_digit 10) ds" and "ds \<noteq> []"
  shows "parseInt ds = Num (of_nat (digits_to_nat 10 ds))"
  using parseInt_signed_digits[OF assms sign_strip_digits(1)[OF assms] sign_strip_digits(2)[OF assms]]
    sign_strip_digits(3)[OF assms] by simp

lemma parseFloat_digits:
  assumes "list_all (is_digit 10) ds" and "ds \<noteq> []"
  shows "parseFloat ds = Num (of_nat (digits_to_nat 10 ds))"
  using parseFloat_signed_digits[OF assms sign_strip_digits(1)[OF assms] sign_strip_digits(2)[OF assms]]
    sign_strip_digits(3)[OF assms] by simp

lemma minus_not_space: "dropWhile is_space (CHR ''-'' # ds) = CHR ''-'' # ds"
  by (simp add: is_space_def)

lemma parseInt_minus_digits:
  assumes "list_all (is_digit 10) ds" and "ds \<noteq> []"
  shows "parseInt (CHR ''-'' # ds) = Num (- of_nat (digits_to_nat 10 ds))"
  using parseInt_signed_digits[OF assms minus_not_space] by simp

lemma parseFloat_minus_digits:
  assumes "list_all (is_digit 10) ds" and "ds \<noteq> []"
  shows "parseFloat (CHR ''-'' # ds) = Num (- of_nat (digits_to_nat 10 ds))"
  using parseFloat_signed_digits[OF assms minus_not_space] by simp

lemma csv_int_cases:
  assumes "csv_int x"
  shows "(\<exists>n::nat. x = Num (of_nat n) \<and> numberToString other x = show_nat n)
       \<or> (\<exists>n::nat. 0 < n \<and> x = Num (- of_nat n) \<and> numberToString other x = CHR ''-'' # show_nat n)"
proof -
  from assms obtain r where x: "x = Num r" and i: "r = of_int \<lfloor>r\<rfloor>" and b: "\<bar>r\<bar> < 10 ^ 21"
    by (cases x) (auto simp: csv_int_def)
  show ?thesis
  proof (cases "r < 0")
    case True
    define n where "n = nat (- \<lfloor>r\<rfloor>)"
    from True have "\<lfloor>r\<rfloor> < 0" by simp
    then have n: "0 < n" "int n = - \<lfloor>r\<rfloor>" by (simp_all add: n_def)
    then have "r = - of_nat n" using i by (metis of_int_of_nat_eq of_int_minus minus_minus)
    moreover have "numberToString other x = CHR ''-'' # show_nat n"
      using x i b True by (simp add: numberToString_def n_def)
    ultimately show ?thesis using x n(1) by blast
  next
    case False
    define n where "n = nat \<lfloor>r\<rfloor>"
    from False have "0 \<le> \<lfloor>r\<rfloor>" by simp
    then have "int n = \<lfloor>r\<rfloor>" by (simp add: n_def)
    then have "r = of_nat n" using i by (metis of_int_of_nat_eq)
    moreover have "numberToString other x = show_nat n"
      using x i b False by (simp add: numberToString_def n_def)
    ultimately show ?thesis using x by blast
  qed
qed

lemma parseInt_show_nat: "parseInt (show_nat n) = Num (of_nat n)"
  using parseInt_digits[OF show_nat_digits show_nat_not_Nil, of n]
  by (simp add: digits_to_nat_show_nat)

lemma parseFloat_show_nat: "parseFloat (show_nat n) = Num (of_nat n)"
  using parseFloat_digits[OF show_nat_digits show_nat_not_Nil, of n]
  by (simp add: digits_to_nat_show_nat)

lemma parseInt_minus_show_nat: "parseInt (CHR ''-'' # show_nat n) = Num (- of_nat n)"
  using parseInt_minus_digits[OF show_nat_digits show_nat_not_Nil, of n]
  by (simp add: digits_to_nat_show_nat)

lemma parseFloat_minus_show_nat: "parseFloat (CHR ''-'' # show_nat n) = Num (- of_nat n)"
  using parseFloat_minus_digits[OF show_nat_digits show_nat_not_Nil, of n]
  by (simp add: digits_to_nat_show_nat)

lemma num_or_self: "num_or (Some (Num r)) (Num 0) = Num r"
  by (simp add: num_or_def)

lemma parseInt_numberToString:
  assumes "csv_int x"
  shows "num_or (Some (parseInt (numberToString other x))) (Num 0) = x"
  using csv_int_cases[OF assms, of other]
  by (auto simp: parseInt_show_nat parseInt_minus_show_nat num_or_self)

lemma parseFloat_numberToString:
  assumes "csv_int x"
  shows "num_or (Some (parseFloat (numberToString other x))) (Num 0) = x"
  using csv_int_cases[OF assms, of other]
  by (auto simp: parseFloat_show_nat parseFloat_minus_show_nat num_or_self)


lemma num_char_facts:
  assumes "num_char c"
  shows "\<not> is_space c" "c \<noteq> CHR 0x22" "c \<noteq> CHR '',''" "c \<noteq> CHR 0x0A"
  using assms is_digit_facts[of c] by (auto simp: num_char_def is_space_def)

lemma numberToString_chars:
  assumes "csv_int x"
  shows "list_all num_char (numberToString other x)" and "numberToString other x \<noteq> []"
proof -
  have d: "list_all num_char (show_nat n)" for n
    using show_nat_digits[of n] by (simp add: list_all_iff num_char_def)
  from csv_int_cases[OF assms, of other] d
  show "list_all num_char (numberToString other x)" by (auto simp: num_char_def)
  from csv_int_cases[OF assms, of other] show_nat_not_Nil
  show "numberToString other x \<noteq> []" by auto
qed

subsection \<open>Cells of an exported row\<close>

lemma trim_id:
  assumes "s \<noteq> []" and "\<not> is_space (hd s)" and "\<not> is_space (last s)"
  shows "trim s = s"
proof -
  from assms(1,2) have 1: "dropWhile is_space s = s" by (cases s) auto
  from assms(1) obtain xs x where sx: "s = xs @ [x]" by (cases s rule: rev_cases) auto
  with assms(3) have "\<not> is_space x" by simp
  then have 2: "dropWhile is_space (rev s) = rev s" by (simp add: sx)
  show ?thesis by (simp add: trim_def 1 2)
qed

lemma quote_not_space: "\<not> is_space (CHR 0x22)"
  by (simp add: is_space_def)

lemma trim_quoted: "trim (quoted s) = quoted s"
  by (rule trim_id) (simp_all add: quoted_def quote_not_space)

lemma strip_quotes_quoted: "strip_quotes (quoted s) = s"
  by (simp add: strip_quotes_def quoted_def)

lemma cell_quoted: "undouble s = s \<Longrightarrow> cell (quoted s) = s"
  by (simp add: cell_def trim_quoted strip_quotes_quoted)

lemma undouble_no_quote: "CHR 0x22 \<notin> set s \<Longrightarrow> undouble s = s"
  by (induction s rule: undouble.induct) auto

lemma strip_quotes_no_quote: "CHR 0x22 \<notin> set s \<Longrightarrow> strip_quotes s = s"
proof (cases s)
  case Nil
  then show ?thesis by (simp add: strip_quotes_def)
next
  case (Cons c r)
  assume "CHR 0x22 \<notin> set s"
  moreover from Cons have "last s \<in> set s" by simp
  ultimately have "c \<noteq> CHR 0x22" "last s \<noteq> CHR 0x22" using Cons by auto
  with Cons show ?thesis by (simp add: strip_quotes_def)
qed

lemma cell_number:
  assumes "list_all num_char s" and "s \<noteq> []"
  shows "cell s = s"
proof -
  from assms have "num_char (hd s)" "num_char (last s)"
    by (simp_all add: list_all_iff)
  then have "trim s = s" using assms(2) num_char_facts(1) by (intro trim_id) auto
  moreover have "CHR 0x22 \<notin> set s"
    using assms(1) num_char_facts(2) by (auto simp: list_all_iff)
  ultimately show ?thesis
    by (simp add: cell_def strip_quotes_no_quote undouble_no_quote)
qed

subsection \<open>Exported rows read back\<close>

lemma comma_free_quoted: "CHR '','' \<notin> set s \<Longrightarrow> CHR '','' \<notin> set (quoted s)"
  by (simp add: quoted_def)

lemma comma_free_number: "csv_int x \<Longrightarrow> CHR '','' \<notin> set (numberToString other x)"
  using numberToString_chars(1)[of x other] num_char_facts(3) by (auto simp: list_all_iff)

lemma split_exportRow:
  assumes "csv_safe p"
  shows "split_on CHR '','' (exportRow other p) =
           quoted (sku p) # quoted (name p) # quoted (category p)
           # numberToString other (quantity p) # numberToString other (minThreshold p)
           # numberToString other (purchasePrice p) # numberToString other (sellingPrice p)
           # split_on CHR '','' (quoted (boxNumber p) @ CHR '','' # quoted (escape_quotes (description p)))"
proof -
  from assms have c: "CHR '','' \<notin> set (quoted (sku p))" "CHR '','' \<notin> set (quoted (name p))"
    "CHR '','' \<notin> set (quoted (category p))"
    "CHR '','' \<notin> set (numberToString other (quantity p))"
    "CHR '','' \<notin> set (numberToString other (minThreshold p))"
    "CHR '','' \<notin> set (numberToString other (purchasePrice p))"
    "CHR '','' \<notin> set (numberToString other (sellingPrice p))"
    by (simp_all add: csv_safe_def plain_field_def comma_free_quoted comma_free_number)
  show ?thesis
    unfolding exportRow_def by (simp add: split_on_first c)
qed

lemma import_exportRow:
  assumes "csv_safe p"
  shows "\<exists>p'. parseLines env [] i (exportRow other p # ls) = p' # parseLines env [] (Suc i) ls
            \<and> kept_fields p' = kept_fields p"
proof -
  let ?l = "exportRow other p"
  let ?rest = "split_on CHR '','' (quoted (boxNumber p) @ CHR '','' # quoted (escape_quotes (description p)))"
  note sp = split_exportRow[OF assms, of other]
  have len: "7 \<le> length (split_on CHR '','' ?l)" unfolding sp by simp
  have "?l = CHR 0x22 # tl ?l" "?l \<noteq> []"
    unfolding exportRow_def by (simp_all add: quoted_def)
  then obtain r where l: "?l = CHR 0x22 # r" by blast
  have "dropWhile is_space ?l = ?l" by (subst (1 2) l) (simp add: quote_not_space)
  moreover have "last ?l = CHR 0x22" unfolding exportRow_def by (simp add: quoted_def)
  ultimately have "trim ?l = ?l"
    using l quote_not_space by (intro trim_id) auto
  with l have tr: "trim ?l \<noteq> []" by simp
  from parseLines_full_row[OF tr len, of env "[]" i ls] obtain p' where
    p': "parseLines env [] i (?l # ls) = p' # parseLines env [] (Suc i) ls"
    and f: "sku p' = cell (split_on CHR '','' ?l ! 0)"
      "name p' = cell (split_on CHR '','' ?l ! 1)"
      "category p' = cell (split_on CHR '','' ?l ! 2)"
      "quantity p' = num_or (Some (parseInt (cell (split_on CHR '','' ?l ! 3)))) (Num 0)"
      "minThreshold p' = num_or (Some (parseInt (cell (split_on CHR '','' ?l ! 4)))) (Num 0)"
      "purchasePrice p' = num_or (Some (parseFloat (cell (split_on CHR '','' ?l ! 5)))) (Num 0)"
      "sellingPrice p' = num_or (Some (parseFloat (cell (split_on CHR '','' ?l ! 6)))) (Num 0)"
    by blast
  from assms have safe: "undouble (sku p) = sku p" "undouble (name p) = name p"
    "undouble (category p) = category p"
    "csv_int (quantity p)" "csv_int (minThreshold p)" "csv_int (purchasePrice p)" "csv_int (sellingPrice p)"
    by (simp_all add: csv_safe_def plain_field_def)
  have cn: "cell (numberToString other x) = numberToString other x" if "csv_int x" for x
    using numberToString_chars[OF that, of other] by (rule cell_number)
  have 1: "sku p' = sku p" using f(1) unfolding sp by (simp add: cell_quoted safe)
  have 2: "name p' = name p" using f(2) unfolding sp by (simp add: cell_quoted safe)
  have 3: "category p' = category p" using f(3) unfolding sp by (simp add: cell_quoted safe)
  have 4: "quantity p' = quantity p" using f(4) unfolding sp
    by (simp add: cn safe parseInt_numberToString)
  have 5: "minThreshold p' = minThreshold p" using f(5) unfolding sp
    by (simp add: cn safe parseInt_numberToString)
  have 6: "purchasePrice p' = purchasePrice p" using f(6) unfolding sp
    by (simp add: cn safe parseFloat_numberToString)
  have 7: "sellingPrice p' = sellingPrice p" using f(7) unfolding sp
    by (simp add: cn safe parseFloat_numberToString)
  have "kept_fields p' = kept_fields p"
    by (simp add: kept_fields_def 1 2 3 4 5 6 7)
  with p' show ?thesis by blast
qed

lemma import_exported_rows:
  assumes "list_all csv_safe ps"
  shows "map kept_fields (parseLines env [] i (map (exportRow other) ps)) = map kept_fields ps"
  using assms
proof (induction ps arbitrary: i)
  case Nil
  then show ?case by simp
next
  case (Cons p ps)
  then have "csv_safe p" by simp
  from import_exportRow[OF this, of env i other "map (exportRow other) ps"] obtain p' where
    "parseLines env [] i (exportRow other p # map (exportRow other) ps)
       = p' # parseLines env [] (Suc i) (map (exportRow other) ps)"
    "kept_fields p' = kept_fields p"
    by blast
  moreover from Cons have
    "map kept_fields (parseLines env [] (Suc i) (map (exportRow other) ps)) = map kept_fields ps"
    by simp
  ultimately show ?case by (simp del: parseLines.simps)
qed

lemma split_on_join:
  assumes "xs \<noteq> []" and "\<forall>x \<in> set xs. c \<notin> set x"
  shows "split_on c (join [c] xs) = xs"
  using assms
proof (induction xs)
  case Nil
  then show ?case by simp
next
  case (Cons x xs)
  show ?case
  proof (cases xs)
    case Nil
    with Cons.prems show ?thesis by (simp add: split_on_no_sep)
  next
    case (Cons y ys)
    with Cons.IH Cons.prems have "split_on c (join [c] xs) = xs" by simp
    with Cons Cons.prems show ?thesis by (simp add: split_on_first)
  qed
qed

lemma newline_free_exportRow:
  assumes "csv_safe p"
  shows "CHR 0x0A \<notin> set (exportRow other p)"
proof -
  have n: "CHR 0x0A \<notin> set (numberToString other x)" if "csv_int x" for x
    using numberToString_chars(1)[OF that, of other] num_char_facts(4) by (auto simp: list_all_iff)
  have e: "CHR 0x0A \<notin> set (escape_quotes s)" if "CHR 0x0A \<notin> set s" for s
    using that by (auto simp: escape_quotes_def split: if_splits)
  from assms show ?thesis
    unfolding exportRow_def
    by (simp add: quoted_def csv_safe_def plain_field_def n e)
qed

lemma newline_free_headers: "CHR 0x0A \<notin> set (join '','' csv_headers)"
  by (simp add: csv_headers_def)

lemma csv_round_trip_plain_fields:
  assumes "ps \<noteq> []" and "list_all csv_safe ps"
  shows "map_option (map kept_fields) (reimport other env ps) = Some (map kept_fields ps)"
proof -
  let ?lines = "join '','' csv_headers # map (exportRow other) ps"
  have "\<forall>x \<in> set ?lines. CHR 0x0A \<notin> set x"
    using assms(2) newline_free_headers newline_free_exportRow by (auto simp: list_all_iff)
  then have "split_on (CHR 0x0A) (join [CHR 0x0A] ?lines) = ?lines"
    by (intro split_on_join) simp_all
  then have "parseCSV env (join [CHR 0x0A] ?lines) [] = parseLines env [] 1 (map (exportRow other) ps)"
    by (simp add: parseCSV_def)
  with assms(1) import_exported_rows[OF assms(2), of env 1 other] show ?thesis
    by (simp add: reimport_def exportToCSV_def)
qed

text \<open>
  Claim C5 does not hold of the code: \<open>exportToCSV\<close> writes the SKU, name and
  category between double quotes, and \<open>parseCSV\<close> splits each line at every comma
  before it removes the quotes. A product named \<open>Cable, USB\<close> comes back as name
  \<open>Cable\<close>, category \<open>USB\<close>, quantity 0, and every later column shifted by one. The
  two products of the sample catalog, which have no comma in their fields, come back
  unchanged, as every product does that \<open>csv_safe\<close> admits
  (\<open>csv_round_trip_plain_fields\<close>).
\<close>

theorem csv_round_trip_breaks_on_comma:
  "exportToCSV other [cable] =
     Some (''SKU,Name,Category,Quantity,Min Threshold,Purchase Price,Selling Price,Box Number,Description''
           @ [CHR 0x0A]
           @ [CHR 0x22] @ ''C-1'' @ [CHR 0x22] @ '','' @ [CHR 0x22] @ ''Cable, USB'' @ [CHR 0x22] @ '',''
           @ [CHR 0x22] @ ''Accessories'' @ [CHR 0x22] @ '',10,5,100,150,''
           @ [CHR 0x22] @ ''B1'' @ [CHR 0x22] @ '','' @ [CHR 0x22] @ ''2 m'' @ [CHR 0x22])
   \<and> map_option (map kept_fields) (reimport other csv_env [cable])
       = Some [(''C-1'', ''Cable'', ''USB'', Num 0, Num 10, Num 5, Num 100)]
   \<and> kept_fields cable = (''C-1'', ''Cable, USB'', ''Accessories'', Num 10, Num 5, Num 100, Num 150)
   \<and> map_option (map kept_fields) (reimport other csv_env [widget, gadget])
       = Some (map kept_fields [widget, gadget])"
proof -
  have 1: "exportToCSV other [cable] =
     Some (''SKU,Name,Category,Quantity,Min Threshold,Purchase Price,Selling Price,Box Number,Description''
           @ [CHR 0x0A]
           @ [CHR 0x22] @ ''C-1'' @ [CHR 0x22] @ '','' @ [CHR 0x22] @ ''Cable, USB'' @ [CHR 0x22] @ '',''
           @ [CHR 0x22] @ ''Accessories'' @ [CHR 0x22] @ '',10,5,100,150,''
           @ [CHR 0x22] @ ''B1'' @ [CHR 0x22] @ '','' @ [CHR 0x22] @ ''2 m'' @ [CHR 0x22])"
    by code_simp
  have 2: "map_option (map kept_fields) (reimport other csv_env [cable])
       = Some [(''C-1'', ''Cable'', ''USB'', Num 0, Num 10, Num 5, Num 100)]"
    by code_simp
  have 3: "kept_fields cable = (''C-1'', ''Cable, USB'', ''Accessories'', Num 10, Num 5, Num 100, Num 150)"
    by (simp add: kept_fields_def cable_def)
  have 4: "map_option (map kept_fields) (reimport other csv_env [widget, gadget])
       = Some (map kept_fields [widget, gadget])"
    by code_simp
  from 1 2 3 4 show ?thesis by blast
qed

section \<open>Two valuations of the stock\<close>



section \<open>The transactions sent for insights\<close>

text \<open>Whenever more than 20 transactions with distinct timestamps are held, the first of
  the list, which is the newest in a list ordered newest first, is not in the snapshot.\<close>

lemma snapshot_dates:
  "map snap_date (ctx_transactions (getInventoryInsights ps txs)) = map timestamp (slice_last 20 txs)"
  by (simp add: getInventoryInsights_def insightTransactions_def)

lemma snapshot_omits_head:
  assumes "20 < length txs" and "distinct (map timestamp txs)"
  shows "timestamp (hd txs) \<notin> set (map snap_date (ctx_transactions (getInventoryInsights ps txs)))"
proof -
  from assms(1) obtain t ts where txs: "txs = t # ts" by (cases txs) auto
  with assms(1) obtain k where k: "length txs - 20 = Suc k" by (cases "length txs - 20") auto
  then have "slice_last 20 txs = drop k ts" by (simp add: slice_last_def txs)
  then have "set (map timestamp (slice_last 20 txs)) \<subseteq> set (map timestamp ts)"
    by (auto dest: in_set_dropD)
  moreover from assms(2) txs have "timestamp t \<notin> set (map timestamp ts)" by simp
  ultimately show ?thesis by (auto simp: snapshot_dates txs)
qed

text \<open>
  Claim C9 does not hold of the code: \<open>fetchTransactions\<close> delivers the list newest
  first and \<open>slice(-20)\<close> takes its last 20 entries. With 21 transactions logged at
  times 1 to 21 the list held is 21, 20, ..., 1 and the snapshot is 20, ..., 1: the
  newest transaction is left out, and the 20 oldest are sent.
\<close>

theorem insight_snapshot_omits_newest:
  "map timestamp (fetchTransactions (Some ledger21)) =
     [21, 20, 19, 18, 17, 16, 15, 14, 13, 12, 11, 10, 9, 8, 7, 6, 5, 4, 3, 2, 1]
   \<and> map snap_date
        (ctx_transactions (getInventoryInsights [widget, gadget] (fetchTransactions (Some ledger21)))) =
     [20, 19, 18, 17, 16, 15, 14, 13, 12, 11, 10, 9, 8, 7, 6, 5, 4, 3, 2, 1]"
  by code_simp

end
